theory Spec2Isabelle
  imports Main "HOL-Library.Word"
begin

section \<open>Data model\<close>

text \<open>
  The target is a 32-bit Arm core: \<open>uint32_t\<close>, \<open>int32_t\<close>, \<open>uint64_t\<close>, \<open>uint8_t\<close>
  and \<open>char\<close> (unsigned under the Arm EABI) are words of the corresponding width, and
  every pointer is a 32-bit address.  A signed value is the same word read with \<open>sint\<close>.
  A cast between integer types is \<open>ucast\<close> (it keeps the low bits), \<open>>>\<close> on an
  unsigned value is \<open>drop_bit\<close>.
\<close>

type_synonym uint8_t = "8 word"
type_synonym uint32_t = "32 word"
type_synonym int32_t = "32 word"
type_synonym uint64_t = "64 word"
type_synonym addr = "32 word"

definition NULL :: addr where
  "NULL = 0"

text \<open>Semihosting command numbers (\<open>semihost.c\<close>, lines 19 to 41).\<close>

definition SYS_OPEN :: uint32_t where "SYS_OPEN = 0x01"
definition SYS_CLOSE :: uint32_t where "SYS_CLOSE = 0x02"
definition SYS_WRITEC :: uint32_t where "SYS_WRITEC = 0x03"
definition SYS_WRITE0 :: uint32_t where "SYS_WRITE0 = 0x04"
definition SYS_WRITE :: uint32_t where "SYS_WRITE = 0x05"
definition SYS_READ :: uint32_t where "SYS_READ = 0x06"
definition SYS_READC :: uint32_t where "SYS_READC = 0x07"
definition SYS_ISERROR :: uint32_t where "SYS_ISERROR = 0x08"
definition SYS_ISTTY :: uint32_t where "SYS_ISTTY = 0x09"
definition SYS_SEEK :: uint32_t where "SYS_SEEK = 0x0A"
definition SYS_FLEN :: uint32_t where "SYS_FLEN = 0x0C"
definition SYS_TMPNAM :: uint32_t where "SYS_TMPNAM = 0x0D"
definition SYS_REMOVE :: uint32_t where "SYS_REMOVE = 0x0E"
definition SYS_RENAME :: uint32_t where "SYS_RENAME = 0x0F"
definition SYS_CLOCK :: uint32_t where "SYS_CLOCK = 0x10"
definition SYS_TIME :: uint32_t where "SYS_TIME = 0x11"
definition SYS_SYSTEM :: uint32_t where "SYS_SYSTEM = 0x12"
definition SYS_ERRNO :: uint32_t where "SYS_ERRNO = 0x13"
definition SYS_GET_CMDLINE :: uint32_t where "SYS_GET_CMDLINE = 0x15"
definition SYS_HEAPINFO :: uint32_t where "SYS_HEAPINFO = 0x16"
definition SYS_EXIT :: uint32_t where "SYS_EXIT = 0x18"
definition SYS_ELAPSED :: uint32_t where "SYS_ELAPSED = 0x30"
definition SYS_TICKFREQ :: uint32_t where "SYS_TICKFREQ = 0x31"

text \<open>Default file handles (\<open>semihost.h\<close>, lines 22 to 24).\<close>

definition SEMIHOST_STDIN :: int32_t where "SEMIHOST_STDIN = 0"
definition SEMIHOST_STDOUT :: int32_t where "SEMIHOST_STDOUT = 1"
definition SEMIHOST_STDERR :: int32_t where "SEMIHOST_STDERR = 2"

text \<open>\<open>struct Semihost_HeapInfo\<close> (\<open>semihost.h\<close>, lines 30 to 36).\<close>

record Semihost_HeapInfo =
  pHeapBase :: addr
  pHeapLimit :: addr
  pStackBase :: addr
  pStackLimit :: addr

text \<open>
  A null-terminated string argument: the address the pointer holds and the characters
  stored there before the terminator, so that \<open>strlen\<close> is their number.
\<close>

record cstring =
  str_addr :: addr
  str_chars :: string

definition strlen :: "cstring \<Rightarrow> uint32_t" where
  "strlen s = of_nat (length (str_chars s))"

text \<open>
  The second argument of a transport request is either the address of the stack array
  \<open>aulArgs\<close>, which the host reads positionally and which is modelled by its contents, or
  a plain word (a null argument, or the address of an object of the caller).
\<close>

datatype sh_arg = ArgBlock "uint32_t list" | ArgWord uint32_t

type_synonym request = "uint32_t \<times> sh_arg"

text \<open>
  The debug host is outside the program.  It is a parameter: an arbitrary function from
  the request, the heap-info objects of the target memory and its own state to the
  64-bit reply (r0 the low word, r1 the high word), the memory it leaves and its next
  state.  The world records every request issued, in order.
\<close>

type_synonym heapinfo_store = "addr \<Rightarrow> Semihost_HeapInfo"

type_synonym 'h host = "request \<Rightarrow> heapinfo_store \<Rightarrow> 'h \<Rightarrow> uint64_t \<times> heapinfo_store \<times> 'h"

record 'h world =
  requests :: "request list"
  heapinfo :: heapinfo_store
  hoststate :: 'h

definition raw_reply :: "'h host \<Rightarrow> request \<Rightarrow> 'h world \<Rightarrow> uint64_t" where
  "raw_reply host req w = fst (host req (heapinfo w) (hoststate w))"

section \<open>Transport core\<close>

text \<open>
  \<open>ullSemihostReqOp\<close> (\<open>semihost.c\<close>, lines 64 to 74): one breakpoint trap, serviced by
  the host; the two reply registers come back as one 64-bit value.
\<close>

definition ullSemihostReqOp ::
  "'h host \<Rightarrow> uint32_t \<Rightarrow> sh_arg \<Rightarrow> 'h world \<Rightarrow> uint64_t \<times> 'h world" where
  "ullSemihostReqOp host ulCmd ulArg w =
     (case host (ulCmd, ulArg) (heapinfo w) (hoststate w) of
        (r, m, h) \<Rightarrow>
          (r, \<lparr>requests = requests w @ [(ulCmd, ulArg)], heapinfo = m, hoststate = h\<rparr>))"

section \<open>Host I/O service layer\<close>

subsection \<open>Console I/O\<close>

definition vSemihostWriteC :: "'h host \<Rightarrow> uint8_t \<Rightarrow> 'h world \<Rightarrow> 'h world" where
  "vSemihostWriteC host cChar w =
     snd (ullSemihostReqOp host SYS_WRITEC (ArgBlock [ucast cChar]) w)"

definition vSemihostWrite0 :: "'h host \<Rightarrow> cstring \<Rightarrow> 'h world \<Rightarrow> 'h world" where
  "vSemihostWrite0 host pszStr w =
     snd (ullSemihostReqOp host SYS_WRITE0 (ArgWord (str_addr pszStr)) w)"

definition cSemihostReadC :: "'h host \<Rightarrow> 'h world \<Rightarrow> uint8_t \<times> 'h world" where
  "cSemihostReadC host w =
     (case ullSemihostReqOp host SYS_READC (ArgWord 0) w of (r, w') \<Rightarrow> (ucast r, w'))"

subsection \<open>Command line\<close>

definition ulSemihostGetCmdline ::
  "'h host \<Rightarrow> addr \<Rightarrow> uint32_t \<Rightarrow> 'h world \<Rightarrow> uint32_t \<times> 'h world" where
  "ulSemihostGetCmdline host pBuf ulSize w =
     (case ullSemihostReqOp host SYS_GET_CMDLINE (ArgBlock [pBuf, ulSize]) w of
        (ullResult, w') \<Rightarrow>
          (if (ucast ullResult :: uint32_t) = 0 then ucast (drop_bit 32 ullResult) else 0, w'))"

definition lSemihostSystem :: "'h host \<Rightarrow> cstring \<Rightarrow> 'h world \<Rightarrow> int32_t \<times> 'h world" where
  "lSemihostSystem host pszCmd w =
     (case ullSemihostReqOp host SYS_SYSTEM (ArgBlock [str_addr pszCmd, strlen pszCmd]) w of
        (r, w') \<Rightarrow> (ucast r, w'))"

subsection \<open>File I/O\<close>

definition lSemihostOpen ::
  "'h host \<Rightarrow> cstring \<Rightarrow> uint32_t \<Rightarrow> 'h world \<Rightarrow> int32_t \<times> 'h world" where
  "lSemihostOpen host pszPath ulMode w =
     (case ullSemihostReqOp host SYS_OPEN
             (ArgBlock [str_addr pszPath, ulMode, strlen pszPath]) w of
        (r, w') \<Rightarrow> (ucast r, w'))"

definition bSemihostClose :: "'h host \<Rightarrow> int32_t \<Rightarrow> 'h world \<Rightarrow> bool \<times> 'h world" where
  "bSemihostClose host lFile w =
     (case ullSemihostReqOp host SYS_CLOSE (ArgBlock [ucast lFile]) w of
        (r, w') \<Rightarrow> ((ucast r :: uint32_t) = 0, w'))"

definition lSemihostWrite ::
  "'h host \<Rightarrow> int32_t \<Rightarrow> addr \<Rightarrow> uint32_t \<Rightarrow> 'h world \<Rightarrow> int32_t \<times> 'h world" where
  "lSemihostWrite host lFile pData ulLen w =
     (case ullSemihostReqOp host SYS_WRITE (ArgBlock [ucast lFile, pData, ulLen]) w of
        (r, w') \<Rightarrow> (ucast r, w'))"

definition lSemihostRead ::
  "'h host \<Rightarrow> int32_t \<Rightarrow> addr \<Rightarrow> uint32_t \<Rightarrow> 'h world \<Rightarrow> int32_t \<times> 'h world" where
  "lSemihostRead host lFile pBuf ulLen w =
     (case ullSemihostReqOp host SYS_READ (ArgBlock [ucast lFile, pBuf, ulLen]) w of
        (r, w') \<Rightarrow> (ucast r, w'))"

definition bSemihostSeek ::
  "'h host \<Rightarrow> int32_t \<Rightarrow> uint32_t \<Rightarrow> 'h world \<Rightarrow> bool \<times> 'h world" where
  "bSemihostSeek host lFile ulPos w =
     (case ullSemihostReqOp host SYS_SEEK (ArgBlock [ucast lFile, ulPos]) w of
        (r, w') \<Rightarrow> ((ucast r :: uint32_t) = 0, w'))"

definition lSemihostGetFLen :: "'h host \<Rightarrow> int32_t \<Rightarrow> 'h world \<Rightarrow> int32_t \<times> 'h world" where
  "lSemihostGetFLen host lFile w =
     (case ullSemihostReqOp host SYS_FLEN (ArgBlock [ucast lFile]) w of
        (r, w') \<Rightarrow> (ucast r, w'))"

definition bSemihostIsTTY :: "'h host \<Rightarrow> int32_t \<Rightarrow> 'h world \<Rightarrow> bool \<times> 'h world" where
  "bSemihostIsTTY host lFile w =
     (case ullSemihostReqOp host SYS_ISTTY (ArgBlock [ucast lFile]) w of
        (r, w') \<Rightarrow> ((ucast r :: uint32_t) = 1, w'))"

subsection \<open>Error handling and filesystem operations\<close>

definition lSemihostGetErrno :: "'h host \<Rightarrow> 'h world \<Rightarrow> int32_t \<times> 'h world" where
  "lSemihostGetErrno host w =
     (case ullSemihostReqOp host SYS_ERRNO (ArgWord 0) w of (r, w') \<Rightarrow> (ucast r, w'))"

definition lSemihostRemove :: "'h host \<Rightarrow> cstring \<Rightarrow> 'h world \<Rightarrow> int32_t \<times> 'h world" where
  "lSemihostRemove host pszPath w =
     (case ullSemihostReqOp host SYS_REMOVE (ArgBlock [str_addr pszPath, strlen pszPath]) w of
        (r, w') \<Rightarrow> (ucast r, w'))"

definition lSemihostRename ::
  "'h host \<Rightarrow> cstring \<Rightarrow> cstring \<Rightarrow> 'h world \<Rightarrow> int32_t \<times> 'h world" where
  "lSemihostRename host pszFrom pszTo w =
     (case ullSemihostReqOp host SYS_RENAME
             (ArgBlock [str_addr pszFrom, strlen pszFrom, str_addr pszTo, strlen pszTo]) w of
        (r, w') \<Rightarrow> (ucast r, w'))"

definition bSemihostGetTmpnam ::
  "'h host \<Rightarrow> addr \<Rightarrow> uint8_t \<Rightarrow> uint32_t \<Rightarrow> 'h world \<Rightarrow> bool \<times> 'h world" where
  "bSemihostGetTmpnam host pszBuf ucId ulSize w =
     (case ullSemihostReqOp host SYS_TMPNAM (ArgBlock [pszBuf, ucast ucId, ulSize]) w of
        (r, w') \<Rightarrow> ((ucast r :: uint32_t) = 0, w'))"

definition bSemihostIsError :: "'h host \<Rightarrow> int32_t \<Rightarrow> 'h world \<Rightarrow> bool \<times> 'h world" where
  "bSemihostIsError host lStatus w =
     (case ullSemihostReqOp host SYS_ISERROR (ArgBlock [ucast lStatus]) w of
        (r, w') \<Rightarrow> ((ucast r :: uint32_t) \<noteq> 0, w'))"

subsection \<open>Timing\<close>

definition ulSemihostGetClock :: "'h host \<Rightarrow> 'h world \<Rightarrow> uint32_t \<times> 'h world" where
  "ulSemihostGetClock host w =
     (case ullSemihostReqOp host SYS_CLOCK (ArgWord 0) w of (r, w') \<Rightarrow> (ucast r, w'))"

definition ulSemihostGetTime :: "'h host \<Rightarrow> 'h world \<Rightarrow> uint32_t \<times> 'h world" where
  "ulSemihostGetTime host w =
     (case ullSemihostReqOp host SYS_TIME (ArgWord 0) w of (r, w') \<Rightarrow> (ucast r, w'))"

definition bSemihostGetElapsed :: "'h host \<Rightarrow> addr \<Rightarrow> 'h world \<Rightarrow> bool \<times> 'h world" where
  "bSemihostGetElapsed host pullElapsed w =
     (case ullSemihostReqOp host SYS_ELAPSED (ArgWord pullElapsed) w of
        (r, w') \<Rightarrow> ((ucast r :: uint32_t) = 0, w'))"

definition ulSemihostGetTickFreq :: "'h host \<Rightarrow> 'h world \<Rightarrow> uint32_t \<times> 'h world" where
  "ulSemihostGetTickFreq host w =
     (case ullSemihostReqOp host SYS_TICKFREQ (ArgWord 0) w of (r, w') \<Rightarrow> (ucast r, w'))"

subsection \<open>Heap and stack configuration\<close>

text \<open>
  The reply of the transport call is dropped (\<open>(void)\<close>); the four fields are read from
  the object at \<open>psInfo\<close> as the host left it.
\<close>

definition bSemihostGetHeapInfo :: "'h host \<Rightarrow> addr \<Rightarrow> 'h world \<Rightarrow> bool \<times> 'h world" where
  "bSemihostGetHeapInfo host psInfo w =
     (case ullSemihostReqOp host SYS_HEAPINFO (ArgBlock [psInfo]) w of
        (r, w') \<Rightarrow>
          (pHeapBase (heapinfo w' psInfo) \<noteq> NULL \<and> pHeapLimit (heapinfo w' psInfo) \<noteq> NULL \<and>
           pStackBase (heapinfo w' psInfo) \<noteq> NULL \<and> pStackLimit (heapinfo w' psInfo) \<noteq> NULL,
           w'))"

section \<open>Coverage export\<close>

text \<open>
  The functions \<open>__gcov_info_to_gcda\<close> and \<open>__gcov_filename_to_gcfn\<close> belong to the
  compiler's coverage runtime, not to this program.  They are parameters.  What such a
  function does with the callbacks it is handed is a finite script of callback
  invocations: the filename and the dump callback return nothing, so the script goes on
  whatever they do; the allocator returns an address, so the script goes on as a function
  of that address.
\<close>

datatype gcov_run =
    Return
  | FilenameFn cstring gcov_run
  | DumpFn addr uint32_t gcov_run
  | AllocateFn uint32_t "addr \<Rightarrow> gcov_run"

type_synonym chunk = "addr \<times> uint32_t"

record 'i gcov_runtime =
  gcov_info_to_gcda :: "'i \<Rightarrow> gcov_run"
  gcov_filename_to_gcfn :: "cstring \<Rightarrow> chunk list"

text \<open>A runtime function running its script against the callbacks and the argument given.\<close>

primrec call_gcov_info_to_gcda ::
  "gcov_run \<Rightarrow> (cstring \<Rightarrow> 'a \<Rightarrow> 's \<Rightarrow> 's) \<Rightarrow> (addr \<Rightarrow> uint32_t \<Rightarrow> 'a \<Rightarrow> 's \<Rightarrow> 's) \<Rightarrow>
   (uint32_t \<Rightarrow> 'a \<Rightarrow> addr) \<Rightarrow> 'a \<Rightarrow> 's \<Rightarrow> 's" where
  "call_gcov_info_to_gcda Return filename_fn dump_fn allocate_fn arg s = s"
| "call_gcov_info_to_gcda (FilenameFn f k) filename_fn dump_fn allocate_fn arg s =
     call_gcov_info_to_gcda k filename_fn dump_fn allocate_fn arg (filename_fn f arg s)"
| "call_gcov_info_to_gcda (DumpFn p n k) filename_fn dump_fn allocate_fn arg s =
     call_gcov_info_to_gcda k filename_fn dump_fn allocate_fn arg (dump_fn p n arg s)"
| "call_gcov_info_to_gcda (AllocateFn n k) filename_fn dump_fn allocate_fn arg s =
     call_gcov_info_to_gcda (k (allocate_fn n arg)) filename_fn dump_fn allocate_fn arg s"

fun call_gcov_filename_to_gcfn ::
  "chunk list \<Rightarrow> (addr \<Rightarrow> uint32_t \<Rightarrow> 'a \<Rightarrow> 's \<Rightarrow> 's) \<Rightarrow> 'a \<Rightarrow> 's \<Rightarrow> 's" where
  "call_gcov_filename_to_gcfn [] dump_fn arg s = s"
| "call_gcov_filename_to_gcfn ((p, n) # cs) dump_fn arg s =
     call_gcov_filename_to_gcfn cs dump_fn arg (dump_fn p n arg s)"

text \<open>
  The callbacks of \<open>coverage.c\<close>.  \<open>pArg\<close> is the address of the local \<open>lFile\<close> of
  \<open>Coverage_vDump\<close>, which nothing writes after the open; the callbacks read the handle
  through it, so the model hands them the handle.  \<open>vDumpCb\<close> drops what
  \<open>lSemihostWrite\<close> returns.
\<close>

definition vDumpCb :: "'h host \<Rightarrow> addr \<Rightarrow> uint32_t \<Rightarrow> int32_t \<Rightarrow> 'h world \<Rightarrow> 'h world" where
  "vDumpCb host pData uLength pArg w = snd (lSemihostWrite host pArg pData uLength w)"

definition vFilenameCb ::
  "'h host \<Rightarrow> 'i gcov_runtime \<Rightarrow> cstring \<Rightarrow> int32_t \<Rightarrow> 'h world \<Rightarrow> 'h world" where
  "vFilenameCb host rt pszFname pArg w =
     call_gcov_filename_to_gcfn (gcov_filename_to_gcfn rt pszFname) (vDumpCb host) pArg w"

definition pAllocateCb :: "uint32_t \<Rightarrow> int32_t \<Rightarrow> addr" where
  "pAllocateCb uLength pArg = NULL"

text \<open>
  The registry between \<open>__gcov_info_start\<close> and \<open>__gcov_info_end\<close> is the list of its
  records; the \<open>for\<close> loop of \<open>Coverage_vDump\<close> walks it from the first element.
\<close>

fun dump_loop ::
  "'h host \<Rightarrow> 'i gcov_runtime \<Rightarrow> int32_t \<Rightarrow> 'i list \<Rightarrow> 'h world \<Rightarrow> 'h world" where
  "dump_loop host rt lFile [] w = w"
| "dump_loop host rt lFile (info # registry) w =
     dump_loop host rt lFile registry
       (call_gcov_info_to_gcda (gcov_info_to_gcda rt info)
          (vFilenameCb host rt) (vDumpCb host) pAllocateCb lFile w)"

definition Coverage_vDump ::
  "'h host \<Rightarrow> 'i gcov_runtime \<Rightarrow> 'i list \<Rightarrow> cstring \<Rightarrow> 'h world \<Rightarrow> 'h world" where
  "Coverage_vDump host rt registry pszFilename w =
     (case lSemihostOpen host pszFilename 5 w of
        (lFile, w1) \<Rightarrow> snd (bSemihostClose host lFile (dump_loop host rt lFile registry w1)))"

section \<open>Vocabulary of the properties\<close>

text \<open>The requests issued between two worlds, and how many of them carry a command.\<close>

definition issued :: "'h world \<Rightarrow> 'h world \<Rightarrow> request list" where
  "issued w w' = drop (length (requests w)) (requests w')"

definition calls_of :: "uint32_t \<Rightarrow> request list \<Rightarrow> nat" where
  "calls_of cmd rs = length (filter (\<lambda>r. fst r = cmd) rs)"

definition open_req :: "cstring \<Rightarrow> request" where
  "open_req pszFilename =
     (SYS_OPEN, ArgBlock [str_addr pszFilename, 5, strlen pszFilename])"

definition write_req :: "int32_t \<Rightarrow> chunk \<Rightarrow> request" where
  "write_req lFile c = (SYS_WRITE, ArgBlock [ucast lFile, fst c, snd c])"

definition close_req :: "int32_t \<Rightarrow> request" where
  "close_req lFile = (SYS_CLOSE, ArgBlock [ucast lFile])"

definition open_handle :: "'h host \<Rightarrow> cstring \<Rightarrow> 'h world \<Rightarrow> int32_t" where
  "open_handle host pszFilename w = fst (lSemihostOpen host pszFilename 5 w)"

text \<open>
  The chunks a script hands to the dump callback, in the order of the invocations, when
  the allocator answers as \<open>allocate_fn\<close> does: those of the filename pass (the sink
  calls made by \<open>__gcov_filename_to_gcfn\<close> inside the filename callback), those of the
  data pass (the direct sink calls), and both together.
\<close>

primrec filename_chunks ::
  "'i gcov_runtime \<Rightarrow> (uint32_t \<Rightarrow> 'a \<Rightarrow> addr) \<Rightarrow> 'a \<Rightarrow> gcov_run \<Rightarrow> chunk list" where
  "filename_chunks rt allocate_fn arg Return = []"
| "filename_chunks rt allocate_fn arg (FilenameFn f k) =
     gcov_filename_to_gcfn rt f @ filename_chunks rt allocate_fn arg k"
| "filename_chunks rt allocate_fn arg (DumpFn p n k) = filename_chunks rt allocate_fn arg k"
| "filename_chunks rt allocate_fn arg (AllocateFn n k) =
     filename_chunks rt allocate_fn arg (k (allocate_fn n arg))"

primrec data_chunks :: "(uint32_t \<Rightarrow> 'a \<Rightarrow> addr) \<Rightarrow> 'a \<Rightarrow> gcov_run \<Rightarrow> chunk list" where
  "data_chunks allocate_fn arg Return = []"
| "data_chunks allocate_fn arg (FilenameFn f k) = data_chunks allocate_fn arg k"
| "data_chunks allocate_fn arg (DumpFn p n k) = (p, n) # data_chunks allocate_fn arg k"
| "data_chunks allocate_fn arg (AllocateFn n k) =
     data_chunks allocate_fn arg (k (allocate_fn n arg))"

primrec emitted ::
  "'i gcov_runtime \<Rightarrow> (uint32_t \<Rightarrow> 'a \<Rightarrow> addr) \<Rightarrow> 'a \<Rightarrow> gcov_run \<Rightarrow> chunk list" where
  "emitted rt allocate_fn arg Return = []"
| "emitted rt allocate_fn arg (FilenameFn f k) =
     gcov_filename_to_gcfn rt f @ emitted rt allocate_fn arg k"
| "emitted rt allocate_fn arg (DumpFn p n k) = (p, n) # emitted rt allocate_fn arg k"
| "emitted rt allocate_fn arg (AllocateFn n k) =
     emitted rt allocate_fn arg (k (allocate_fn n arg))"

text \<open>
  The calling convention of the coverage runtime: \<open>__gcov_info_to_gcda\<close> invokes the
  filename callback first and once, and from then on only the sink and the allocator.
\<close>

primrec data_only :: "(uint32_t \<Rightarrow> 'a \<Rightarrow> addr) \<Rightarrow> 'a \<Rightarrow> gcov_run \<Rightarrow> bool" where
  "data_only allocate_fn arg Return = True"
| "data_only allocate_fn arg (FilenameFn f k) = False"
| "data_only allocate_fn arg (DumpFn p n k) = data_only allocate_fn arg k"
| "data_only allocate_fn arg (AllocateFn n k) = data_only allocate_fn arg (k (allocate_fn n arg))"

fun filename_first :: "(uint32_t \<Rightarrow> 'a \<Rightarrow> addr) \<Rightarrow> 'a \<Rightarrow> gcov_run \<Rightarrow> bool" where
  "filename_first allocate_fn arg (FilenameFn f k) = data_only allocate_fn arg k"
| "filename_first allocate_fn arg Return = False"
| "filename_first allocate_fn arg (DumpFn p n k) = False"
| "filename_first allocate_fn arg (AllocateFn n k) = False"

text \<open>
  The write requests one record contributes to a dump on the handle \<open>lFile\<close>, with the
  allocator of \<open>coverage.c\<close>: all of them, those of its filename pass, those of its
  data pass.
\<close>

definition record_writes :: "'i gcov_runtime \<Rightarrow> int32_t \<Rightarrow> 'i \<Rightarrow> request list" where
  "record_writes rt lFile info =
     map (write_req lFile) (emitted rt pAllocateCb lFile (gcov_info_to_gcda rt info))"

definition filename_pass :: "'i gcov_runtime \<Rightarrow> int32_t \<Rightarrow> 'i \<Rightarrow> request list" where
  "filename_pass rt lFile info =
     map (write_req lFile) (filename_chunks rt pAllocateCb lFile (gcov_info_to_gcda rt info))"

definition data_pass :: "'i gcov_runtime \<Rightarrow> int32_t \<Rightarrow> 'i \<Rightarrow> request list" where
  "data_pass rt lFile info =
     map (write_req lFile) (data_chunks pAllocateCb lFile (gcov_info_to_gcda rt info))"

text \<open>Hosts that differ from a given one in the reply only.\<close>

definition with_reply :: "uint64_t \<Rightarrow> 'h host \<Rightarrow> 'h host" where
  "with_reply r host = (\<lambda>req m h. case host req m h of (r0, m', h') \<Rightarrow> (r, m', h'))"

section \<open>Concrete hosts, runtimes and registries\<close>

definition null_heapinfo :: heapinfo_store where
  "null_heapinfo = (\<lambda>a. \<lparr>pHeapBase = 0, pHeapLimit = 0, pStackBase = 0, pStackLimit = 0\<rparr>)"

definition idle_world :: "unit world" where
  "idle_world = \<lparr>requests = [], heapinfo = null_heapinfo, hoststate = ()\<rparr>"

text \<open>A host that answers every request with the same reply and touches nothing.\<close>

definition reply_host :: "uint64_t \<Rightarrow> unit host" where
  "reply_host r = (\<lambda>req m h. (r, m, h))"

text \<open>A host that answers an open with a handle and everything else with 0.\<close>

definition handle_host :: "uint64_t \<Rightarrow> unit host" where
  "handle_host fd = (\<lambda>req m h. (if fst req = SYS_OPEN then fd else 0, m, h))"

text \<open>A host that stores a heap-info record where a heap-info request points.\<close>

definition heapinfo_host :: "Semihost_HeapInfo \<Rightarrow> uint64_t \<Rightarrow> unit host" where
  "heapinfo_host hi r =
     (\<lambda>req m h. (r, (case snd req of ArgBlock [p] \<Rightarrow> m(p := hi) | _ \<Rightarrow> m), h))"

text \<open>
  A runtime whose records are numbered: for record \<open>i\<close> one filename chunk, then two data
  chunks with a request for a buffer in between, and a third data chunk only if a buffer
  was granted.
\<close>

definition demo_name :: "nat \<Rightarrow> cstring" where
  "demo_name i = \<lparr>str_addr = 0x08001000 + 16 * of_nat i, str_chars = ''main.gcda''\<rparr>"

definition demo_runtime :: "nat gcov_runtime" where
  "demo_runtime =
     \<lparr>gcov_info_to_gcda = (\<lambda>i.
        FilenameFn (demo_name i)
          (DumpFn (0x20000000 + 256 * of_nat i) 12
            (AllocateFn 64 (\<lambda>p.
               if p = NULL then DumpFn (0x20000010 + 256 * of_nat i) 8 Return
               else DumpFn p 64 (DumpFn (0x20000010 + 256 * of_nat i) 8 Return))))),
      gcov_filename_to_gcfn = (\<lambda>f. [(str_addr f, strlen f)])\<rparr>"

definition demo_file :: cstring where
  "demo_file = \<lparr>str_addr = 0x08000400, str_chars = ''build/coverage.bin''\<rparr>"

section \<open>Properties of the service layer\<close>

lemma ullSemihostReqOp_requests:
  "requests (snd (ullSemihostReqOp host ulCmd ulArg w)) = requests w @ [(ulCmd, ulArg)]"
  by (simp add: ullSemihostReqOp_def split: prod.split)

lemma default_handles:
  "sint SEMIHOST_STDIN = 0 \<and> sint SEMIHOST_STDOUT = 1 \<and> sint SEMIHOST_STDERR = 2"
  by (simp add: SEMIHOST_STDIN_def SEMIHOST_STDOUT_def SEMIHOST_STDERR_def)

text \<open>
  C1.  The length returned by \<open>ulSemihostGetCmdline\<close> is the high word of the reply
  when the low word of the reply is 0 (the call succeeded), and 0 for every reply whose
  low word is not 0, whatever the high word holds.
\<close>

theorem ulSemihostGetCmdline_length:
  "((ucast (raw_reply host (SYS_GET_CMDLINE, ArgBlock [pBuf, ulSize]) w) :: uint32_t) = 0 \<longrightarrow>
      fst (ulSemihostGetCmdline host pBuf ulSize w) =
        ucast (drop_bit 32 (raw_reply host (SYS_GET_CMDLINE, ArgBlock [pBuf, ulSize]) w))) \<and>
   ((ucast (raw_reply host (SYS_GET_CMDLINE, ArgBlock [pBuf, ulSize]) w) :: uint32_t) \<noteq> 0 \<longrightarrow>
      fst (ulSemihostGetCmdline host pBuf ulSize w) = 0)"
  by (simp add: ulSemihostGetCmdline_def ullSemihostReqOp_def raw_reply_def split: prod.split)

text \<open>Low word 0 and high word 42: length 42.  Low word 1 and high word 7: length 0.\<close>

theorem ulSemihostGetCmdline_length_witness:
  "fst (ulSemihostGetCmdline (reply_host 0x2A00000000) 0x20000200 128 idle_world) = 42 \<and>
   fst (ulSemihostGetCmdline (reply_host 0x700000001) 0x20000200 128 idle_world) = 0"
  using ulSemihostGetCmdline_length [of "reply_host 0x2A00000000" "0x20000200" 128 idle_world]
    ulSemihostGetCmdline_length [of "reply_host 0x700000001" "0x20000200" 128 idle_world]
  by (simp add: raw_reply_def reply_host_def)

text \<open>
  C5.  \<open>bSemihostGetHeapInfo\<close> returns true exactly when the four fields of the record
  at \<open>psInfo\<close>, as the transport call left it, are all non-null; a host that differs in
  its reply only gets the same answer, so the reply plays no part.
\<close>

theorem bSemihostGetHeapInfo_valid:
  "fst (bSemihostGetHeapInfo host psInfo w) =
     (pHeapBase (heapinfo (snd (ullSemihostReqOp host SYS_HEAPINFO (ArgBlock [psInfo]) w)) psInfo) \<noteq> NULL \<and>
      pHeapLimit (heapinfo (snd (ullSemihostReqOp host SYS_HEAPINFO (ArgBlock [psInfo]) w)) psInfo) \<noteq> NULL \<and>
      pStackBase (heapinfo (snd (ullSemihostReqOp host SYS_HEAPINFO (ArgBlock [psInfo]) w)) psInfo) \<noteq> NULL \<and>
      pStackLimit (heapinfo (snd (ullSemihostReqOp host SYS_HEAPINFO (ArgBlock [psInfo]) w)) psInfo) \<noteq> NULL) \<and>
   fst (bSemihostGetHeapInfo (with_reply r host) psInfo w) = fst (bSemihostGetHeapInfo host psInfo w)"
  by (simp add: bSemihostGetHeapInfo_def ullSemihostReqOp_def with_reply_def split: prod.split)

text \<open>
  A record with a null stack limit is invalid although the reply is 0; a full record is
  valid although the reply is 1.
\<close>

theorem bSemihostGetHeapInfo_valid_witness:
  "raw_reply
     (heapinfo_host \<lparr>pHeapBase = 0x20000800, pHeapLimit = 0x20004000,
                     pStackBase = 0x20005000, pStackLimit = 0\<rparr> 0)
     (SYS_HEAPINFO, ArgBlock [0x20000100]) idle_world = 0 \<and>
   fst (bSemihostGetHeapInfo
     (heapinfo_host \<lparr>pHeapBase = 0x20000800, pHeapLimit = 0x20004000,
                     pStackBase = 0x20005000, pStackLimit = 0\<rparr> 0)
     0x20000100 idle_world) = False \<and>
   fst (bSemihostGetHeapInfo
     (heapinfo_host \<lparr>pHeapBase = 0x20000800, pHeapLimit = 0x20004000,
                     pStackBase = 0x20005000, pStackLimit = 0x20004800\<rparr> 1)
     0x20000100 idle_world) = True"
  using bSemihostGetHeapInfo_valid
    [of "heapinfo_host \<lparr>pHeapBase = 0x20000800, pHeapLimit = 0x20004000,
                         pStackBase = 0x20005000, pStackLimit = 0\<rparr> 0" "0x20000100" idle_world]
    bSemihostGetHeapInfo_valid
    [of "heapinfo_host \<lparr>pHeapBase = 0x20000800, pHeapLimit = 0x20004000,
                         pStackBase = 0x20005000, pStackLimit = 0x20004800\<rparr> 1" "0x20000100"
        idle_world]
  by (simp add: ullSemihostReqOp_def heapinfo_host_def raw_reply_def NULL_def)

text \<open>
  C6, as the claim puts it: a reply of 0 gives true and every other reply gives false.
  The reply is a 64-bit value and \<open>bSemihostClose\<close> compares its low word only: a reply
  with low word 0 and high word 1 is not 0, and the close still reports success.
\<close>

theorem bSemihostClose_high_word_counterexample:
  "raw_reply (reply_host 0x100000000) (SYS_CLOSE, ArgBlock [3]) idle_world \<noteq> 0 \<and>
   fst (bSemihostClose (reply_host 0x100000000) 3 idle_world) = True"
  by (simp add: raw_reply_def reply_host_def bSemihostClose_def ullSemihostReqOp_def)

text \<open>
  C6, amended.  The boolean results are decided by the low 32 bits of the reply alone:
  close, seek, temp-name and elapsed-ticks return true exactly when the low word is 0,
  is-tty exactly when the low word is 1, is-error exactly when the low word is not 0.
\<close>

theorem bool_result_low_word:
  "fst (bSemihostClose host lFile w) =
     ((ucast (raw_reply host (SYS_CLOSE, ArgBlock [ucast lFile]) w) :: uint32_t) = 0) \<and>
   fst (bSemihostSeek host lFile ulPos w) =
     ((ucast (raw_reply host (SYS_SEEK, ArgBlock [ucast lFile, ulPos]) w) :: uint32_t) = 0) \<and>
   fst (bSemihostGetTmpnam host pszBuf ucId ulSize w) =
     ((ucast (raw_reply host (SYS_TMPNAM, ArgBlock [pszBuf, ucast ucId, ulSize]) w) :: uint32_t) = 0) \<and>
   fst (bSemihostGetElapsed host pullElapsed w) =
     ((ucast (raw_reply host (SYS_ELAPSED, ArgWord pullElapsed) w) :: uint32_t) = 0) \<and>
   fst (bSemihostIsTTY host lFile w) =
     ((ucast (raw_reply host (SYS_ISTTY, ArgBlock [ucast lFile]) w) :: uint32_t) = 1) \<and>
   fst (bSemihostIsError host lStatus w) =
     ((ucast (raw_reply host (SYS_ISERROR, ArgBlock [ucast lStatus]) w) :: uint32_t) \<noteq> 0)"
  by (simp add: bSemihostClose_def bSemihostSeek_def bSemihostGetTmpnam_def
      bSemihostGetElapsed_def bSemihostIsTTY_def bSemihostIsError_def
      ullSemihostReqOp_def raw_reply_def split: prod.split)

text \<open>
  C10.  Each operation of the service layer adds exactly one request to those issued so
  far, and that request carries the command and the whole argument block of the
  operation.
\<close>

theorem one_request_per_operation:
  "requests (vSemihostWriteC host cChar w) =
     requests w @ [(SYS_WRITEC, ArgBlock [ucast cChar])] \<and>
   requests (vSemihostWrite0 host pszStr w) =
     requests w @ [(SYS_WRITE0, ArgWord (str_addr pszStr))] \<and>
   requests (snd (cSemihostReadC host w)) = requests w @ [(SYS_READC, ArgWord 0)] \<and>
   requests (snd (ulSemihostGetCmdline host pBuf ulSize w)) =
     requests w @ [(SYS_GET_CMDLINE, ArgBlock [pBuf, ulSize])] \<and>
   requests (snd (lSemihostSystem host pszCmd w)) =
     requests w @ [(SYS_SYSTEM, ArgBlock [str_addr pszCmd, strlen pszCmd])] \<and>
   requests (snd (lSemihostOpen host pszPath ulMode w)) =
     requests w @ [(SYS_OPEN, ArgBlock [str_addr pszPath, ulMode, strlen pszPath])] \<and>
   requests (snd (bSemihostClose host lFile w)) =
     requests w @ [(SYS_CLOSE, ArgBlock [ucast lFile])] \<and>
   requests (snd (lSemihostWrite host lFile pData ulLen w)) =
     requests w @ [(SYS_WRITE, ArgBlock [ucast lFile, pData, ulLen])] \<and>
   requests (snd (lSemihostRead host lFile pBuf ulLen w)) =
     requests w @ [(SYS_READ, ArgBlock [ucast lFile, pBuf, ulLen])] \<and>
   requests (snd (bSemihostSeek host lFile ulPos w)) =
     requests w @ [(SYS_SEEK, ArgBlock [ucast lFile, ulPos])] \<and>
   requests (snd (lSemihostGetFLen host lFile w)) =
     requests w @ [(SYS_FLEN, ArgBlock [ucast lFile])] \<and>
   requests (snd (bSemihostIsTTY host lFile w)) =
     requests w @ [(SYS_ISTTY, ArgBlock [ucast lFile])] \<and>
   requests (snd (lSemihostGetErrno host w)) = requests w @ [(SYS_ERRNO, ArgWord 0)] \<and>
   requests (snd (lSemihostRemove host pszPath w)) =
     requests w @ [(SYS_REMOVE, ArgBlock [str_addr pszPath, strlen pszPath])] \<and>
   requests (snd (lSemihostRename host pszFrom pszTo w)) =
     requests w @ [(SYS_RENAME,
       ArgBlock [str_addr pszFrom, strlen pszFrom, str_addr pszTo, strlen pszTo])] \<and>
   requests (snd (bSemihostGetTmpnam host pszBuf ucId ulSize w)) =
     requests w @ [(SYS_TMPNAM, ArgBlock [pszBuf, ucast ucId, ulSize])] \<and>
   requests (snd (bSemihostIsError host lStatus w)) =
     requests w @ [(SYS_ISERROR, ArgBlock [ucast lStatus])] \<and>
   requests (snd (ulSemihostGetClock host w)) = requests w @ [(SYS_CLOCK, ArgWord 0)] \<and>
   requests (snd (ulSemihostGetTime host w)) = requests w @ [(SYS_TIME, ArgWord 0)] \<and>
   requests (snd (bSemihostGetElapsed host pullElapsed w)) =
     requests w @ [(SYS_ELAPSED, ArgWord pullElapsed)] \<and>
   requests (snd (ulSemihostGetTickFreq host w)) = requests w @ [(SYS_TICKFREQ, ArgWord 0)] \<and>
   requests (snd (bSemihostGetHeapInfo host psInfo w)) =
     requests w @ [(SYS_HEAPINFO, ArgBlock [psInfo])]"
  by (simp add: vSemihostWriteC_def vSemihostWrite0_def cSemihostReadC_def
      ulSemihostGetCmdline_def lSemihostSystem_def lSemihostOpen_def bSemihostClose_def
      lSemihostWrite_def lSemihostRead_def bSemihostSeek_def lSemihostGetFLen_def
      bSemihostIsTTY_def lSemihostGetErrno_def lSemihostRemove_def lSemihostRename_def
      bSemihostGetTmpnam_def bSemihostIsError_def ulSemihostGetClock_def ulSemihostGetTime_def
      bSemihostGetElapsed_def ulSemihostGetTickFreq_def bSemihostGetHeapInfo_def
      ullSemihostReqOp_requests case_prod_unfold)

section \<open>Properties of the coverage export\<close>

subsection \<open>The requests of a dump\<close>

lemma lSemihostOpen_requests:
  "requests (snd (lSemihostOpen host pszPath ulMode w)) =
     requests w @ [(SYS_OPEN, ArgBlock [str_addr pszPath, ulMode, strlen pszPath])]"
  by (simp add: lSemihostOpen_def ullSemihostReqOp_def split: prod.split)

lemma bSemihostClose_requests:
  "requests (snd (bSemihostClose host lFile w)) = requests w @ [(SYS_CLOSE, ArgBlock [ucast lFile])]"
  by (simp add: bSemihostClose_def ullSemihostReqOp_def split: prod.split)

lemma lSemihostWrite_requests:
  "requests (snd (lSemihostWrite host lFile pData ulLen w)) =
     requests w @ [(SYS_WRITE, ArgBlock [ucast lFile, pData, ulLen])]"
  by (simp add: lSemihostWrite_def ullSemihostReqOp_def split: prod.split)

lemma vDumpCb_requests:
  "requests (vDumpCb host p n lFile w) = requests w @ [write_req lFile (p, n)]"
  by (simp add: vDumpCb_def write_req_def lSemihostWrite_requests)

lemma call_gcov_filename_to_gcfn_requests:
  "requests (call_gcov_filename_to_gcfn cs (vDumpCb host) lFile w) =
     requests w @ map (write_req lFile) cs"
  by (induction cs arbitrary: w) (auto simp: vDumpCb_requests)

lemma vFilenameCb_requests:
  "requests (vFilenameCb host rt f lFile w) =
     requests w @ map (write_req lFile) (gcov_filename_to_gcfn rt f)"
  by (simp add: vFilenameCb_def call_gcov_filename_to_gcfn_requests)

lemma call_gcov_info_to_gcda_requests:
  "requests (call_gcov_info_to_gcda run (vFilenameCb host rt) (vDumpCb host) pAllocateCb lFile w) =
     requests w @ map (write_req lFile) (emitted rt pAllocateCb lFile run)"
  by (induction run arbitrary: w) (simp_all add: vFilenameCb_requests vDumpCb_requests)

lemma dump_loop_requests:
  "requests (dump_loop host rt lFile registry w) =
     requests w @ concat (map (record_writes rt lFile) registry)"
  by (induction registry arbitrary: w)
     (simp_all add: call_gcov_info_to_gcda_requests record_writes_def)

lemma Coverage_vDump_requests:
  "requests (Coverage_vDump host rt registry pszFilename w) =
     requests w @ open_req pszFilename #
       concat (map (record_writes rt (open_handle host pszFilename w)) registry) @
       [close_req (open_handle host pszFilename w)]"
proof -
  obtain lFile w1 where o: "lSemihostOpen host pszFilename 5 w = (lFile, w1)"
    by (cases "lSemihostOpen host pszFilename 5 w")
  have h: "open_handle host pszFilename w = lFile"
    by (simp add: open_handle_def o)
  have r1: "requests w1 = requests w @ [open_req pszFilename]"
    using lSemihostOpen_requests [of host pszFilename 5 w] by (simp add: o open_req_def)
  show ?thesis
    by (simp add: Coverage_vDump_def o h bSemihostClose_requests dump_loop_requests r1
        close_req_def)
qed

text \<open>
  Whatever the runtime and the host do, a dump issues one open, then for each record of
  the registry, in registry order, one write per chunk in the order of the callback
  invocations, then one close.
\<close>

lemma Coverage_vDump_issued:
  "issued w (Coverage_vDump host rt registry pszFilename w) =
     open_req pszFilename #
       concat (map (record_writes rt (open_handle host pszFilename w)) registry) @
       [close_req (open_handle host pszFilename w)]"
  by (simp add: issued_def Coverage_vDump_requests)

lemma calls_of_append: "calls_of c (xs @ ys) = calls_of c xs + calls_of c ys"
  by (simp add: calls_of_def)

lemma calls_of_Cons: "calls_of c (x # xs) = (if fst x = c then 1 else 0) + calls_of c xs"
  by (simp add: calls_of_def)

lemma calls_of_Nil: "calls_of c [] = 0"
  by (simp add: calls_of_def)

lemma calls_of_writes:
  "calls_of c (map (write_req h) cs) = (if c = SYS_WRITE then length cs else 0)"
  by (induction cs) (auto simp: calls_of_def write_req_def)

lemma calls_of_record_writes:
  "calls_of c (concat (map (record_writes rt h) registry)) =
     (if c = SYS_WRITE
      then (\<Sum>info\<leftarrow>registry. length (emitted rt pAllocateCb h (gcov_info_to_gcda rt info)))
      else 0)"
  by (induction registry) (simp_all add: calls_of_Nil calls_of_append record_writes_def calls_of_writes)

lemma length_emitted:
  "length (emitted rt al arg run) =
     length (filename_chunks rt al arg run) + length (data_chunks al arg run)"
  by (induction run) simp_all

lemma data_only_emitted:
  "data_only al arg run \<Longrightarrow>
     emitted rt al arg run = data_chunks al arg run \<and> filename_chunks rt al arg run = []"
  by (induction run) simp_all

lemma filename_first_emitted:
  "filename_first al arg run \<Longrightarrow>
     emitted rt al arg run = filename_chunks rt al arg run @ data_chunks al arg run"
  by (cases run) (simp_all add: data_only_emitted)

lemma cmd_distinct:
  "SYS_OPEN \<noteq> SYS_WRITE" "SYS_OPEN \<noteq> SYS_CLOSE" "SYS_CLOSE \<noteq> SYS_WRITE"
  "SYS_WRITE \<noteq> SYS_OPEN" "SYS_CLOSE \<noteq> SYS_OPEN" "SYS_WRITE \<noteq> SYS_CLOSE"
  by (simp_all add: SYS_OPEN_def SYS_WRITE_def SYS_CLOSE_def)

lemma calls_of_issued:
  "calls_of c (issued w (Coverage_vDump host rt registry f w)) =
     (if c = SYS_OPEN then 1 else 0) +
     (if c = SYS_WRITE
      then (\<Sum>info\<leftarrow>registry.
              length (emitted rt pAllocateCb (open_handle host f w) (gcov_info_to_gcda rt info)))
      else 0) +
     (if c = SYS_CLOSE then 1 else 0)"
  by (simp add: Coverage_vDump_issued calls_of_Cons calls_of_append calls_of_Nil
      calls_of_record_writes open_req_def close_req_def)

lemma open_handle_handle_host:
  "open_handle (handle_host 3) demo_file idle_world = 3"
  by (simp add: open_handle_def lSemihostOpen_def ullSemihostReqOp_def handle_host_def)

lemma open_handle_reply_host:
  "open_handle (reply_host r) f w = ucast r"
  by (simp add: open_handle_def lSemihostOpen_def ullSemihostReqOp_def reply_host_def)

lemmas demo_defs =
  filename_pass_def data_pass_def record_writes_def demo_runtime_def demo_name_def
  demo_file_def pAllocateCb_def NULL_def open_req_def write_req_def close_req_def strlen_def

subsection \<open>Call counts, order and failure handling\<close>

text \<open>
  C2.  One dump of any registry issues exactly one open request, exactly one close
  request and exactly one write request per chunk of the filename and data passes of
  its records; for the empty registry it issues no write.
\<close>

theorem Coverage_vDump_call_counts:
  "calls_of SYS_OPEN (issued w (Coverage_vDump host rt registry f w)) = 1 \<and>
   calls_of SYS_CLOSE (issued w (Coverage_vDump host rt registry f w)) = 1 \<and>
   calls_of SYS_WRITE (issued w (Coverage_vDump host rt registry f w)) =
     (\<Sum>info\<leftarrow>registry.
        length (filename_pass rt (open_handle host f w) info) +
        length (data_pass rt (open_handle host f w) info)) \<and>
   calls_of SYS_WRITE (issued w (Coverage_vDump host rt [] f w)) = 0"
  by (simp add: calls_of_issued cmd_distinct length_emitted filename_pass_def data_pass_def)

text \<open>
  Two records, each with one filename chunk and two data chunks: one open, one close, six
  writes.
\<close>

theorem Coverage_vDump_call_counts_witness:
  "calls_of SYS_OPEN (issued idle_world
      (Coverage_vDump (handle_host 3) demo_runtime [0, 1] demo_file idle_world)) = 1 \<and>
   calls_of SYS_CLOSE (issued idle_world
      (Coverage_vDump (handle_host 3) demo_runtime [0, 1] demo_file idle_world)) = 1 \<and>
   calls_of SYS_WRITE (issued idle_world
      (Coverage_vDump (handle_host 3) demo_runtime [0, 1] demo_file idle_world)) = 6"
  using Coverage_vDump_call_counts [of idle_world "handle_host 3" demo_runtime "[0, 1]" demo_file]
  by (simp add: filename_pass_def data_pass_def demo_runtime_def pAllocateCb_def)

text \<open>
  C3.  The requests of a dump are the open, then the writes of each record in registry
  order, the writes of one record in the order of the callback invocations, then the
  close, so that no two records interleave.  When the runtime keeps its calling
  convention (the filename callback first, then the sink), the writes of each record are
  those of its filename pass followed by those of its data pass: no two passes swap.
\<close>

theorem Coverage_vDump_order:
  "issued w (Coverage_vDump host rt registry f w) =
     open_req f #
     concat (map (record_writes rt (open_handle host f w)) registry) @
     [close_req (open_handle host f w)] \<and>
   ((\<forall>info \<in> set registry.
       filename_first pAllocateCb (open_handle host f w) (gcov_info_to_gcda rt info)) \<longrightarrow>
    issued w (Coverage_vDump host rt registry f w) =
      open_req f #
      concat (map (\<lambda>info. filename_pass rt (open_handle host f w) info @
                           data_pass rt (open_handle host f w) info) registry) @
      [close_req (open_handle host f w)])"
proof (intro conjI impI)
  show "issued w (Coverage_vDump host rt registry f w) =
     open_req f #
     concat (map (record_writes rt (open_handle host f w)) registry) @
     [close_req (open_handle host f w)]"
    by (rule Coverage_vDump_issued)
next
  assume conv: "\<forall>info \<in> set registry.
     filename_first pAllocateCb (open_handle host f w) (gcov_info_to_gcda rt info)"
  have "record_writes rt (open_handle host f w) info =
        filename_pass rt (open_handle host f w) info @ data_pass rt (open_handle host f w) info"
    if "info \<in> set registry" for info
    using conv that
    by (simp add: record_writes_def filename_pass_def data_pass_def filename_first_emitted)
  then have "map (record_writes rt (open_handle host f w)) registry =
        map (\<lambda>info. filename_pass rt (open_handle host f w) info @
                     data_pass rt (open_handle host f w) info) registry"
    by (rule map_ext [rule_format])
  then show "issued w (Coverage_vDump host rt registry f w) =
      open_req f #
      concat (map (\<lambda>info. filename_pass rt (open_handle host f w) info @
                           data_pass rt (open_handle host f w) info) registry) @
      [close_req (open_handle host f w)]"
    by (simp only: Coverage_vDump_issued)
qed

text \<open>
  Two records under a host that hands out the handle 3: the eight requests, the filename
  chunk of each record before its two data chunks.
\<close>

theorem Coverage_vDump_order_witness:
  "issued idle_world (Coverage_vDump (handle_host 3) demo_runtime [0, 1] demo_file idle_world) =
     [(SYS_OPEN, ArgBlock [0x08000400, 5, 18]),
      (SYS_WRITE, ArgBlock [3, 0x08001000, 9]),
      (SYS_WRITE, ArgBlock [3, 0x20000000, 12]),
      (SYS_WRITE, ArgBlock [3, 0x20000010, 8]),
      (SYS_WRITE, ArgBlock [3, 0x08001010, 9]),
      (SYS_WRITE, ArgBlock [3, 0x20000100, 12]),
      (SYS_WRITE, ArgBlock [3, 0x20000110, 8]),
      (SYS_CLOSE, ArgBlock [3])]"
proof -
  have conv: "\<forall>info \<in> set [0, 1].
      filename_first pAllocateCb (open_handle (handle_host 3) demo_file idle_world)
        (gcov_info_to_gcda demo_runtime info)"
    by (simp add: demo_runtime_def)
  from Coverage_vDump_order [of idle_world "handle_host 3" demo_runtime "[0, 1]" demo_file]
  have "issued idle_world
          (Coverage_vDump (handle_host 3) demo_runtime [0, 1] demo_file idle_world) =
        open_req demo_file #
        concat (map (\<lambda>info.
          filename_pass demo_runtime (open_handle (handle_host 3) demo_file idle_world) info @
          data_pass demo_runtime (open_handle (handle_host 3) demo_file idle_world) info) [0, 1]) @
        [close_req (open_handle (handle_host 3) demo_file idle_world)]"
    using conv by blast
  then show ?thesis
    by (simp add: open_handle_handle_host)
      (simp add: demo_defs)
qed

text \<open>
  C4.  When the open returns -1 the dump goes on: it issues the writes of every record
  with the handle -1 and then exactly one close with the handle -1.
\<close>

theorem Coverage_vDump_open_failed:
  assumes "fst (lSemihostOpen host f 5 w) = - 1"
  shows "issued w (Coverage_vDump host rt registry f w) =
           open_req f # concat (map (record_writes rt (- 1)) registry) @ [close_req (- 1)] \<and>
         calls_of SYS_CLOSE (issued w (Coverage_vDump host rt registry f w)) = 1"
proof -
  have h: "open_handle host f w = - 1"
    using assms by (simp add: open_handle_def)
  have "calls_of SYS_CLOSE (issued w (Coverage_vDump host rt registry f w)) = 1"
    by (simp add: calls_of_issued cmd_distinct)
  moreover have "issued w (Coverage_vDump host rt registry f w) =
      open_req f # concat (map (record_writes rt (- 1)) registry) @ [close_req (- 1)]"
    by (simp only: Coverage_vDump_issued h)
  ultimately show ?thesis by simp
qed

theorem Coverage_vDump_open_failed_witness:
  "fst (lSemihostOpen (reply_host 0xFFFFFFFF) demo_file 5 idle_world) = - 1 \<and>
   issued idle_world
     (Coverage_vDump (reply_host 0xFFFFFFFF) demo_runtime [0, 1] demo_file idle_world) =
     [(SYS_OPEN, ArgBlock [0x08000400, 5, 18]),
      (SYS_WRITE, ArgBlock [0xFFFFFFFF, 0x08001000, 9]),
      (SYS_WRITE, ArgBlock [0xFFFFFFFF, 0x20000000, 12]),
      (SYS_WRITE, ArgBlock [0xFFFFFFFF, 0x20000010, 8]),
      (SYS_WRITE, ArgBlock [0xFFFFFFFF, 0x08001010, 9]),
      (SYS_WRITE, ArgBlock [0xFFFFFFFF, 0x20000100, 12]),
      (SYS_WRITE, ArgBlock [0xFFFFFFFF, 0x20000110, 8]),
      (SYS_CLOSE, ArgBlock [0xFFFFFFFF])]"
proof -
  have h: "fst (lSemihostOpen (reply_host 0xFFFFFFFF) demo_file 5 idle_world) = - 1"
    by (simp add: lSemihostOpen_def ullSemihostReqOp_def reply_host_def)
  show ?thesis
    using h Coverage_vDump_open_failed [OF h, of demo_runtime "[0, 1]"]
    by (simp add: demo_defs)
qed

text \<open>
  C7.  Two hosts that hand out the same handle see the same requests, whatever they
  answer to the writes and however their states go on: what a write returns is dropped by
  \<open>vDumpCb\<close>, and each chunk is written once.
\<close>

theorem Coverage_vDump_ignores_remainder:
  assumes "open_handle host1 f w1 = open_handle host2 f w2"
  shows "issued w1 (Coverage_vDump host1 rt registry f w1) =
           issued w2 (Coverage_vDump host2 rt registry f w2) \<and>
         calls_of SYS_WRITE (issued w1 (Coverage_vDump host1 rt registry f w1)) =
           (\<Sum>info\<leftarrow>registry.
              length (emitted rt pAllocateCb (open_handle host1 f w1) (gcov_info_to_gcda rt info)))"
proof -
  have "issued w1 (Coverage_vDump host1 rt registry f w1) =
        issued w2 (Coverage_vDump host2 rt registry f w2)"
    by (simp only: Coverage_vDump_issued assms)
  moreover have "calls_of SYS_WRITE (issued w1 (Coverage_vDump host1 rt registry f w1)) =
      (\<Sum>info\<leftarrow>registry.
         length (emitted rt pAllocateCb (open_handle host1 f w1) (gcov_info_to_gcda rt info)))"
    by (simp add: calls_of_issued cmd_distinct)
  ultimately show ?thesis by simp
qed

text \<open>
  A host that reports a remainder of 3 for every write and a host that reports 0 get the
  same requests.
\<close>

theorem Coverage_vDump_ignores_remainder_witness:
  "fst (lSemihostWrite (reply_host 3) 3 0x20000000 12 idle_world) = 3 \<and>
   fst (lSemihostWrite (handle_host 3) 3 0x20000000 12 idle_world) = 0 \<and>
   issued idle_world (Coverage_vDump (reply_host 3) demo_runtime [0, 1] demo_file idle_world) =
   issued idle_world (Coverage_vDump (handle_host 3) demo_runtime [0, 1] demo_file idle_world)"
proof -
  have h: "open_handle (reply_host 3) demo_file idle_world =
           open_handle (handle_host 3) demo_file idle_world"
    by (simp add: open_handle_handle_host open_handle_reply_host)
  have "fst (lSemihostWrite (reply_host 3) 3 0x20000000 12 idle_world) = 3"
    by (simp add: lSemihostWrite_def ullSemihostReqOp_def reply_host_def)
  moreover have "fst (lSemihostWrite (handle_host 3) 3 0x20000000 12 idle_world) = 0"
    by (simp add: lSemihostWrite_def ullSemihostReqOp_def handle_host_def SYS_WRITE_def
        SYS_OPEN_def)
  ultimately show ?thesis
    using Coverage_vDump_ignores_remainder [OF h, of demo_runtime "[0, 1]"] by simp
qed

text \<open>
  C8.  \<open>pAllocateCb\<close> returns null for every size and every argument, and a runtime
  that asks for a buffer during a dump goes on with null.
\<close>

theorem pAllocateCb_null:
  "pAllocateCb uLength pArg = NULL \<and>
   call_gcov_info_to_gcda (AllocateFn n k) (vFilenameCb host rt) (vDumpCb host) pAllocateCb lFile w =
   call_gcov_info_to_gcda (k NULL) (vFilenameCb host rt) (vDumpCb host) pAllocateCb lFile w"
  by (simp add: pAllocateCb_def)

end
